theory Spec2Isabelle
  imports Main "HOL-Library.AList"
begin

section \<open>The low level binary client (opcua/client/async-ua-client)\<close>

text \<open>
  The file holds two classes: \<^verbatim>\<open>UASocketProtocol\<close>, which numbers requests, keeps
  the futures of the requests that wait for an answer and writes to the transport, and
  \<^verbatim>\<open>UaClient\<close>, whose methods build one request each and read the response.
  Both are modelled by a record of their fields and one function per method, which takes
  the record and returns it updated. A method name with a leading underscore is written
  with the prefix \<open>priv_\<close>, since a name cannot start with an underscore here.

  The module \<^verbatim>\<open>ua\<close>, the binary codec \<^verbatim>\<open>ua_binary\<close> and the class
  \<^verbatim>\<open>AsyncSecureConnection\<close> are imported by the file and are not part of it. The
  codec's functions and the connection's \<^verbatim>\<open>message_to_binary\<close> are parameters of
  the model (the record \<open>codec\<close>); the few enumerations and status codes the file
  tests are datatypes.
\<close>

subsection \<open>Exceptions, results of coroutines\<close>

text \<open>
  The exceptions that the modelled code raises or catches; all of them are instances of
  Python's \<^verbatim>\<open>Exception\<close>, which is what the clause \<^verbatim>\<open>except Exception\<close> of the
  file catches. \<open>UaStatusCodeError n\<close> stands for the error of a bad status code other
  than the three the file names, \<open>OtherException n\<close> for any other instance of
  \<^verbatim>\<open>Exception\<close> (what the codec or a user callback may raise). The exits that are
  no instances of \<^verbatim>\<open>Exception\<close> (\<^verbatim>\<open>SystemExit\<close>, \<^verbatim>\<open>KeyboardInterrupt\<close>) are
  outside the model.
\<close>

datatype exn =
    InvalidStateError
  | CancelledError
  | TimeoutError
  | AttributeError
  | TypeError
  | IndexError
  | ValueError
  | UaError
  | BadTimeout
  | BadNoSubscription
  | BadSessionClosed
  | UaStatusCodeError nat
  | OtherException nat

text \<open>
  A synchronous function returns \<open>exn + 'a\<close>. A coroutine, run until it returns, raises
  or has to wait, gives an \<open>outcome\<close>; \<open>Suspended d\<close> is a coroutine that waits for a
  future: under \<^verbatim>\<open>asyncio.wait_for\<close> with the deadline \<open>Some t\<close> (seconds), or
  with no deadline at a plain \<^verbatim>\<open>await\<close>.
\<close>

datatype 'a outcome = Returned 'a | Raised exn | Suspended "int option"

type_synonym bytes = "nat list"
type_synonym node_id = int

datatype log_level = DEBUG | INFO | WARNING | ERROR
type_synonym log_entry = "log_level \<times> string"

subsection \<open>Status codes (module ua)\<close>

text \<open>
  Modelled from the spec: \<^verbatim>\<open>ua.StatusCode\<close> and its methods \<^verbatim>\<open>is_good\<close> and
  \<^verbatim>\<open>check\<close>, which are not in the file. A service result is good, or it is one of
  the bad results; \<^verbatim>\<open>check()\<close> raises the error of a result that is not good
  (the spec: "any non-good ServiceResult in a response header" is surfaced to the caller),
  and the three statuses that the file catches by name raise the exception of that name.
\<close>

datatype status_code =
    Good
  | Status_BadTimeout
  | Status_BadNoSubscription
  | Status_BadSessionClosed
  | Status_OtherBad nat

fun is_good :: "status_code \<Rightarrow> bool" where
  "is_good Good = True"
| "is_good _ = False"

fun status_error :: "status_code \<Rightarrow> exn" where
  "status_error Status_BadTimeout = BadTimeout"
| "status_error Status_BadNoSubscription = BadNoSubscription"
| "status_error Status_BadSessionClosed = BadSessionClosed"
| "status_error (Status_OtherBad n) = UaStatusCodeError n"
| "status_error Good = UaStatusCodeError 0"

definition check :: "status_code \<Rightarrow> exn + unit" where
  "check sc = (if is_good sc then Inr () else Inl (status_error sc))"

subsection \<open>Requests, responses, futures\<close>

record request_header =
  AuthenticationToken :: node_id
  RequestHandle :: int
  TimeoutHint :: int

datatype attribute_id = AttributeIds_NodeClass | AttributeIds_ValueRank | AttributeIds_Other nat

record read_value_id =
  NodeId :: node_id
  AttributeId :: attribute_id

datatype request_body =
    OpenSecureChannelRequest nat
  | CloseSecureChannelRequest
  | CreateSessionRequest nat
  | CloseSessionRequest bool
  | ReadRequest "read_value_id list"
  | PublishRequest "nat list"
  | OtherRequest nat

record request =
  RequestHeader :: request_header
  Body :: request_body

text \<open>A request as its constructor leaves it: \<^verbatim>\<open>ua.RequestHeader()\<close> with no token,
  handle 0 and hint 0.\<close>

definition new_request :: "request_body \<Rightarrow> request" where
  "new_request b =
     \<lparr>RequestHeader = \<lparr>AuthenticationToken = 0, RequestHandle = 0, TimeoutHint = 0\<rparr>,
      Body = b\<rparr>"

datatype message_type = Hello | SecureOpen | SecureMessage | SecureClose

text \<open>The callables that the file hands to \<^verbatim>\<open>add_done_callback\<close>.\<close>

datatype done_callback =
    Call_publish_callback
  | Create_subscription_callback nat
  | Delete_subscriptions_callback "int list"

datatype future_state = Pending | Finished bytes | Cancelled

record future =
  fstate :: future_state
  done_callbacks :: "done_callback list"

text \<open>\<^verbatim>\<open>asyncio.Future()\<close>.\<close>

definition new_future :: future where
  "new_future = \<lparr>fstate = Pending, done_callbacks = []\<rparr>"

text \<open>\<^verbatim>\<open>future.add_done_callback(cb)\<close> on a future that is not done.\<close>

definition add_done_callback :: "future \<Rightarrow> done_callback \<Rightarrow> future" where
  "add_done_callback f cb = f\<lparr>done_callbacks := done_callbacks f @ [cb]\<rparr>"

text \<open>\<^verbatim>\<open>future.result()\<close>: the result of a finished future; it raises
  \<^verbatim>\<open>InvalidStateError\<close> while the future is pending and \<^verbatim>\<open>CancelledError\<close> when
  it was cancelled.\<close>

definition future_result :: "future \<Rightarrow> exn + bytes" where
  "future_result f =
     (case fstate f of
        Pending \<Rightarrow> Inl InvalidStateError
      | Finished b \<Rightarrow> Inr b
      | Cancelled \<Rightarrow> Inl CancelledError)"

text \<open>\<^verbatim>\<open>future.set_result(body)\<close>: only a pending future takes a result.\<close>

definition set_result :: "future \<Rightarrow> bytes \<Rightarrow> exn + future" where
  "set_result f body =
     (case fstate f of
        Pending \<Rightarrow> Inr (f\<lparr>fstate := Finished body\<rparr>)
      | Finished b \<Rightarrow> Inl InvalidStateError
      | Cancelled \<Rightarrow> Inl InvalidStateError)"

text \<open>
  What the file passes to \<^verbatim>\<open>asyncio.wait_for\<close> as its first argument: a future
  (\<^verbatim>\<open>send_hello\<close>, \<^verbatim>\<open>open_secure_channel\<close>) or the bytes that
  \<^verbatim>\<open>future.result()\<close> returned (\<^verbatim>\<open>send_request\<close>).
\<close>

datatype awaited = Aw_future future | Aw_bytes bytes

text \<open>
  \<^verbatim>\<open>await asyncio.wait_for(aw, timeout)\<close>, up to the point where the coroutine has
  to wait. Bytes cannot be awaited (\<^verbatim>\<open>TypeError\<close>). A future that is done gives
  its result at once; a pending one is waited for, for at most \<open>timeout\<close> seconds.
\<close>

definition wait_for :: "awaited \<Rightarrow> int \<Rightarrow> bytes outcome" where
  "wait_for aw tmo =
     (case aw of
        Aw_bytes b \<Rightarrow> Raised TypeError
      | Aw_future f \<Rightarrow>
          (case fstate f of
             Finished b \<Rightarrow> Returned b
           | Cancelled \<Rightarrow> Raised CancelledError
           | Pending \<Rightarrow> Suspended (Some tmo)))"

record response_header =
  ServiceResult :: status_code

record create_session_result =
  SessionId :: node_id
  Result_AuthenticationToken :: node_id

record create_session_response =
  CreateSession_ResponseHeader :: response_header
  CreateSession_Parameters :: create_session_result

record close_session_response =
  CloseSession_ResponseHeader :: response_header

text \<open>The value of a variant: an integer as the codec decodes it, a member of one of the
  two enumerations that \<^verbatim>\<open>read\<close> casts to, or anything else.\<close>

datatype variant_value =
    Int_value int
  | NodeClass_value int
  | ValueRank_value int
  | Other_value nat

record data_value =
  StatusCode :: status_code
  Value :: variant_value

record read_response =
  Read_ResponseHeader :: response_header
  Results :: "data_value list"

record publish_result =
  SubscriptionId :: int
  NotificationMessage :: nat

record publish_response =
  Publish_ResponseHeader :: response_header
  Publish_Parameters :: publish_result

subsection \<open>The codec and the secure connection\<close>

text \<open>
  The state of the \<^verbatim>\<open>AsyncSecureConnection\<close> object (channel, token, sequence
  numbers); the file never looks into it.
\<close>

datatype connection = Connection nat

text \<open>
  The imported functions. \<open>struct_to_binary\<close> may raise on a request it cannot encode;
  the decoders may raise on bytes they cannot read. \<open>nodeid_from_binary\<close> returns the
  node id at the head of the buffer and the rest of the buffer.
  \<open>message_to_binary\<close> is the connection's method: it returns the connection updated
  and the bytes of the chunks; like \<open>uatcp_to_binary\<close> it has no failure in the spec
  and none here. \<open>NodeClass_member\<close> says which integers are members of the
  enumeration \<^verbatim>\<open>ua.NodeClass\<close>.
\<close>

record codec =
  struct_to_binary :: "request \<Rightarrow> exn + bytes"
  uatcp_to_binary :: "message_type \<Rightarrow> string \<times> int \<times> int \<Rightarrow> bytes"
  message_to_binary :: "connection \<Rightarrow> bytes \<Rightarrow> message_type \<Rightarrow> int \<Rightarrow> connection \<times> bytes"
  nodeid_from_binary :: "bytes \<Rightarrow> exn + (node_id \<times> bytes)"
  ResponseHeader_from_binary :: "bytes \<Rightarrow> exn + response_header"
  CreateSessionResponse_from_binary :: "bytes \<Rightarrow> exn + create_session_response"
  CloseSessionResponse_from_binary :: "bytes \<Rightarrow> exn + close_session_response"
  ReadResponse_from_binary :: "bytes \<Rightarrow> exn + read_response"
  PublishResponse_from_binary :: "bytes \<Rightarrow> exn + publish_response"
  NodeClass_member :: "int \<Rightarrow> bool"

text \<open>\<^verbatim>\<open>ua.ObjectIds.ServiceFault_Encoding_DefaultBinary\<close>, the node id that opens a
  service fault.\<close>

definition ServiceFault_Encoding_DefaultBinary :: node_id where
  "ServiceFault_Encoding_DefaultBinary = 397"

subsection \<open>UASocketProtocol\<close>

text \<open>
  The fields of the protocol object that the modelled methods read or write.
  \<open>transport\<close> is \<open>None\<close> as long as no connection is made and after it is lost;
  otherwise it holds the messages written so far, oldest first. \<open>callbackmap\<close> is the
  dictionary \<^verbatim>\<open>_callbackmap\<close> as the list of its items in insertion order. The
  receive buffer and the fields of the byte reader are left out: none of the modelled
  methods touches them.
\<close>

record protocol_state =
  transport :: "bytes list option"
  ptimeout :: int
  authentication_token :: node_id
  request_id :: int
  request_handle :: int
  callbackmap :: "(int \<times> future) list"
  connection :: connection
  plog :: "log_entry list"

text \<open>\<^verbatim>\<open>UASocketProtocol.__init__(timeout, security_policy)\<close>.\<close>

definition init_protocol :: "int \<Rightarrow> connection \<Rightarrow> protocol_state" where
  "init_protocol tmo conn =
     \<lparr>transport = None, ptimeout = tmo, authentication_token = 0,
      request_id = 0, request_handle = 0, callbackmap = [],
      connection = conn, plog = []\<rparr>"

definition logp :: "log_level \<Rightarrow> string \<Rightarrow> protocol_state \<Rightarrow> protocol_state" where
  "logp lvl msg s = s\<lparr>plog := plog s @ [(lvl, msg)]\<rparr>"

definition connection_made :: "protocol_state \<Rightarrow> protocol_state" where
  "connection_made s = s\<lparr>transport := Some []\<rparr>"

definition connection_lost :: "protocol_state \<Rightarrow> protocol_state" where
  "connection_lost s = (logp INFO ''Socket has closed connection'' s)\<lparr>transport := None\<rparr>"

text \<open>\<^verbatim>\<open>self.transport.write(msg)\<close>: an attribute of \<^verbatim>\<open>None\<close> cannot be read.\<close>

definition transport_write :: "protocol_state \<Rightarrow> bytes \<Rightarrow> protocol_state \<times> (exn + unit)" where
  "transport_write s msg =
     (case transport s of
        None \<Rightarrow> (s, Inl AttributeError)
      | Some written \<Rightarrow> (s\<lparr>transport := Some (written @ [msg])\<rparr>, Inr ()))"

text \<open>\<^verbatim>\<open>_create_request_header(timeout)\<close>: the token of the protocol, the next handle,
  and the timeout as the hint.\<close>

definition priv_create_request_header ::
  "protocol_state \<Rightarrow> int \<Rightarrow> protocol_state \<times> request_header" where
  "priv_create_request_header s tmo =
     (let s1 = s\<lparr>request_handle := request_handle s + 1\<rparr>
      in (s1, \<lparr>AuthenticationToken = authentication_token s1,
               RequestHandle = request_handle s1,
               TimeoutHint = tmo\<rparr>))"

text \<open>
  \<^verbatim>\<open>_send_request(request, callback, timeout, message_type)\<close>. The header is stored
  in the caller's request object, so the request is returned too. When the encoding
  raises, the handle is taken back and the exception is raised again. Otherwise the
  next request id is taken, a new future is stored under it, and the message is built
  and written; the future is returned.
\<close>

definition priv_send_request ::
  "codec \<Rightarrow> protocol_state \<Rightarrow> request \<Rightarrow> done_callback option \<Rightarrow> int \<Rightarrow> message_type
     \<Rightarrow> protocol_state \<times> request \<times> (exn + future)" where
  "priv_send_request cd s request callback tmo mt =
     (let (s1, hdr) = priv_create_request_header s tmo;
          request1 = request\<lparr>RequestHeader := hdr\<rparr>;
          s2 = logp DEBUG ''Sending: %s'' s1
      in case struct_to_binary cd request1 of
           Inl e \<Rightarrow> (s2\<lparr>request_handle := request_handle s2 - 1\<rparr>, request1, Inl e)
         | Inr binreq \<Rightarrow>
             (let s3 = s2\<lparr>request_id := request_id s2 + 1\<rparr>;
                  fut = (case callback of
                           None \<Rightarrow> new_future
                         | Some cb \<Rightarrow> add_done_callback new_future cb);
                  s4 = s3\<lparr>callbackmap := AList.update (request_id s3) fut (callbackmap s3)\<rparr>;
                  (conn, msg) = message_to_binary cd (connection s4) binreq mt (request_id s4);
                  s5 = s4\<lparr>connection := conn\<rparr>
              in case transport_write s5 msg of
                   (s6, Inl e) \<Rightarrow> (s6, request1, Inl e)
                 | (s6, Inr u) \<Rightarrow> (s6, request1, Inr fut)))"

text \<open>
  \<^verbatim>\<open>check_answer(data, context)\<close>: on a service fault the response header is decoded
  from what follows the node id and its service result is checked.
\<close>

definition check_answer ::
  "codec \<Rightarrow> protocol_state \<Rightarrow> bytes \<Rightarrow> protocol_state \<times> (exn + bool)" where
  "check_answer cd s data =
     (case nodeid_from_binary cd data of
        Inl e \<Rightarrow> (s, Inl e)
      | Inr (typeid, rest) \<Rightarrow>
          if typeid = ServiceFault_Encoding_DefaultBinary then
            (let s1 = logp WARNING ''ServiceFault from server received %s'' s
             in case ResponseHeader_from_binary cd rest of
                  Inl e \<Rightarrow> (s1, Inl e)
                | Inr hdr \<Rightarrow>
                    (case check (ServiceResult hdr) of
                       Inl e \<Rightarrow> (s1, Inl e)
                     | Inr u \<Rightarrow> (s1, Inr False)))
          else (s, Inr True))"

text \<open>What a coroutine of the file can have in the variable \<^verbatim>\<open>data\<close>: a buffer,
  \<^verbatim>\<open>None\<close>, or a coroutine object that was never awaited.\<close>

datatype pyobj = Buffer bytes | PyNone | Coroutine_object

text \<open>
  \<^verbatim>\<open>send_request(request, callback, timeout, message_type)\<close>. With a callback it
  returns \<^verbatim>\<open>None\<close> once the request is written. Without one it evaluates
  \<^verbatim>\<open>asyncio.wait_for(future.result(), self.timeout)\<close>, arguments first: the result
  of the future that \<^verbatim>\<open>_send_request\<close> has just made is asked for, and what it
  returns is what \<^verbatim>\<open>wait_for\<close> gets, with the protocol's own timeout.
\<close>

definition send_request ::
  "codec \<Rightarrow> protocol_state \<Rightarrow> request \<Rightarrow> done_callback option \<Rightarrow> int \<Rightarrow> message_type
     \<Rightarrow> protocol_state \<times> request \<times> pyobj outcome" where
  "send_request cd s request callback tmo mt =
     (case priv_send_request cd s request callback tmo mt of
        (s1, request1, Inl e) \<Rightarrow> (s1, request1, Raised e)
      | (s1, request1, Inr fut) \<Rightarrow>
          (case callback of
             Some cb \<Rightarrow> (s1, request1, Returned PyNone)
           | None \<Rightarrow>
               (case future_result fut of
                  Inl e \<Rightarrow> (s1, request1, Raised e)
                | Inr res \<Rightarrow>
                    (case wait_for (Aw_bytes res) (ptimeout s1) of
                       Raised e \<Rightarrow> (s1, request1, Raised e)
                     | Suspended d \<Rightarrow> (s1, request1, Suspended d)
                     | Returned data \<Rightarrow>
                         (case check_answer cd s1 data of
                            (s2, Inl e) \<Rightarrow> (s2, request1, Raised e)
                          | (s2, Inr ok) \<Rightarrow> (s2, request1, Returned (Buffer data)))))))"

text \<open>
  \<^verbatim>\<open>_call_callback(request_id, body)\<close>: the future is popped from the map; with no
  future under the id, \<^verbatim>\<open>UaError\<close> is raised. The finished future is returned: the
  event loop then runs its done callbacks.
\<close>

definition priv_call_callback ::
  "protocol_state \<Rightarrow> int \<Rightarrow> bytes \<Rightarrow> protocol_state \<times> (exn + future)" where
  "priv_call_callback s rid body =
     (case map_of (callbackmap s) rid of
        None \<Rightarrow> (s, Inl UaError)
      | Some fut \<Rightarrow>
          (let s1 = s\<lparr>callbackmap := AList.delete rid (callbackmap s)\<rparr>
           in (s1, set_result fut body)))"

text \<open>
  \<^verbatim>\<open>send_hello(url, max_messagesize, max_chunkcount)\<close>, up to its await: a new
  future is stored under the id 0, the hello message is written, and the coroutine waits
  for the future.
\<close>

definition send_hello ::
  "codec \<Rightarrow> protocol_state \<Rightarrow> string \<Rightarrow> int \<Rightarrow> int \<Rightarrow> protocol_state \<times> bytes outcome" where
  "send_hello cd s url max_messagesize max_chunkcount =
     (let fut = new_future;
          s1 = s\<lparr>callbackmap := AList.update 0 fut (callbackmap s)\<rparr>;
          binmsg = uatcp_to_binary cd Hello (url, max_messagesize, max_chunkcount)
      in case transport_write s1 binmsg of
           (s2, Inl e) \<Rightarrow> (s2, Raised e)
         | (s2, Inr u) \<Rightarrow> (s2, wait_for (Aw_future fut) (ptimeout s2)))"

text \<open>
  \<^verbatim>\<open>open_secure_channel(params)\<close>, up to its await; what it does once the future
  is done (decoding the response, \<^verbatim>\<open>set_channel\<close>) touches neither the counters
  nor the map and is left out.
\<close>

definition open_secure_channel ::
  "codec \<Rightarrow> protocol_state \<Rightarrow> nat \<Rightarrow> protocol_state \<times> bytes outcome" where
  "open_secure_channel cd s params =
     (let s0 = logp INFO ''open_secure_channel'' s;
          request = new_request (OpenSecureChannelRequest params)
      in case priv_send_request cd s0 request None 1000 SecureOpen of
           (s1, request1, Inl e) \<Rightarrow> (s1, Raised e)
         | (s1, request1, Inr fut) \<Rightarrow> (s1, wait_for (Aw_future fut) (ptimeout s1)))"

text \<open>\<^verbatim>\<open>close_secure_channel()\<close>: the request is sent, its future is cancelled and
  the map is cleared.\<close>

definition close_secure_channel :: "codec \<Rightarrow> protocol_state \<Rightarrow> protocol_state \<times> unit outcome" where
  "close_secure_channel cd s =
     (let s0 = logp INFO ''close_secure_channel'' s;
          request = new_request CloseSecureChannelRequest
      in case priv_send_request cd s0 request None 1000 SecureClose of
           (s1, request1, Inl e) \<Rightarrow> (s1, Raised e)
         | (s1, request1, Inr fut) \<Rightarrow> (s1\<lparr>callbackmap := []\<rparr>, Returned ()))"

subsection \<open>Runs of the protocol object\<close>

text \<open>
  Everything that can happen to a protocol object between two moments: the event loop
  calls \<^verbatim>\<open>connection_made\<close> or \<^verbatim>\<open>connection_lost\<close>, a message arrives and
  the receive task calls \<^verbatim>\<open>_call_callback\<close>, or some task calls one of the sending
  methods. \<open>step\<close> is the state after the event, whatever the method returned or raised.
\<close>

datatype event =
    Ev_connection_made
  | Ev_connection_lost
  | Ev_send_request request "done_callback option" int message_type
  | Ev_call_callback int bytes
  | Ev_send_hello string int int
  | Ev_open_secure_channel nat
  | Ev_close_secure_channel

fun step :: "codec \<Rightarrow> protocol_state \<Rightarrow> event \<Rightarrow> protocol_state" where
  "step cd s Ev_connection_made = connection_made s"
| "step cd s Ev_connection_lost = connection_lost s"
| "step cd s (Ev_send_request request callback tmo mt) =
     fst (send_request cd s request callback tmo mt)"
| "step cd s (Ev_call_callback rid body) = fst (priv_call_callback s rid body)"
| "step cd s (Ev_send_hello url mms mcc) = fst (send_hello cd s url mms mcc)"
| "step cd s (Ev_open_secure_channel params) = fst (open_secure_channel cd s params)"
| "step cd s Ev_close_secure_channel = fst (close_secure_channel cd s)"

fun run :: "codec \<Rightarrow> protocol_state \<Rightarrow> event list \<Rightarrow> protocol_state" where
  "run cd s [] = s"
| "run cd s (ev # evs) = run cd (step cd s ev) evs"

text \<open>
  The request ids given out during a run, in order. \<^verbatim>\<open>_send_request\<close> is the only
  place that changes the counter, and the id it gives to the request is the counter's
  new value; so an id was given out by an event exactly when the counter has changed.
\<close>

fun request_ids :: "codec \<Rightarrow> protocol_state \<Rightarrow> event list \<Rightarrow> int list" where
  "request_ids cd s [] = []"
| "request_ids cd s (ev # evs) =
     (let s1 = step cd s ev
      in (if request_id s1 = request_id s then [] else [request_id s1]) @ request_ids cd s1 evs)"


subsection \<open>UaClient\<close>

text \<open>
  The client object. \<open>publishcallbacks\<close> is the dictionary from subscription ids to the
  callbacks of the user; a callback returns (\<open>None\<close>) or raises (\<open>Some e\<close>).
  \<open>protocol\<close> is \<open>None\<close> until \<^verbatim>\<open>connect_socket\<close> has made the protocol object.
\<close>

record client_state =
  publishcallbacks :: "(int \<times> (publish_result \<Rightarrow> exn option)) list"
  client_timeout :: int
  protocol :: "protocol_state option"
  clog :: "log_entry list"

definition init_client :: "int \<Rightarrow> client_state" where
  "init_client tmo = \<lparr>publishcallbacks = [], client_timeout = tmo, protocol = None, clog = []\<rparr>"

definition logc :: "log_level \<Rightarrow> string \<Rightarrow> client_state \<Rightarrow> client_state" where
  "logc lvl msg c = c\<lparr>clog := clog c @ [(lvl, msg)]\<rparr>"

text \<open>
  Modelled from the spec: \<^verbatim>\<open>struct_from_binary\<close> of the codec, which is not in the
  file, on an argument that is no buffer. The spec gives the decoder bytes
  (\<^verbatim>\<open>decode(type_tag, bytes)\<close>); \<^verbatim>\<open>None\<close> and a coroutine object have no
  bytes to read, and the first read raises.
\<close>

definition struct_from_binary :: "(bytes \<Rightarrow> exn + 'a) \<Rightarrow> pyobj \<Rightarrow> exn + 'a" where
  "struct_from_binary decode data =
     (case data of
        Buffer b \<Rightarrow> decode b
      | PyNone \<Rightarrow> Inl AttributeError
      | Coroutine_object \<Rightarrow> Inl AttributeError)"

text \<open>
  \<^verbatim>\<open>create_session(parameters)\<close>. The call
  \<^verbatim>\<open>self.protocol.send_request(request)\<close> is not awaited here: it makes a coroutine
  object, whose body does not run, and that object is what \<^verbatim>\<open>data\<close> holds.
\<close>

definition create_session ::
  "codec \<Rightarrow> client_state \<Rightarrow> nat \<Rightarrow> client_state \<times> create_session_result outcome" where
  "create_session cd c parameters =
     (let c0 = logc INFO ''create_session'' c;
          request = new_request (CreateSessionRequest parameters)
      in case protocol c0 of
           None \<Rightarrow> (c0, Raised AttributeError)
         | Some p \<Rightarrow>
             (let never_run = send_request cd p request None 1000 SecureMessage;
                  data = Coroutine_object
              in case struct_from_binary (CreateSessionResponse_from_binary cd) data of
                   Inl e \<Rightarrow> (c0, Raised e)
                 | Inr response \<Rightarrow>
                     (let c1 = logc DEBUG ''%s'' c0
                      in case check (ServiceResult (CreateSession_ResponseHeader response)) of
                           Inl e \<Rightarrow> (c1, Raised e)
                         | Inr u \<Rightarrow>
                             (c1\<lparr>protocol := Some (p\<lparr>authentication_token :=
                                     Result_AuthenticationToken (CreateSession_Parameters response)\<rparr>)\<rparr>,
                              Returned (CreateSession_Parameters response)))))"

text \<open>
  \<^verbatim>\<open>close_session(deletesubscriptions)\<close>: the part after the await, on the data that
  \<^verbatim>\<open>send_request\<close> returned. \<^verbatim>\<open>BadSessionClosed\<close> from the check of the
  service result is caught and passed over.
\<close>

definition close_session_response ::
  "codec \<Rightarrow> client_state \<Rightarrow> pyobj \<Rightarrow> client_state \<times> unit outcome" where
  "close_session_response cd c data =
     (case struct_from_binary (CloseSessionResponse_from_binary cd) data of
        Inl e \<Rightarrow> (c, Raised e)
      | Inr response \<Rightarrow>
          (case check (ServiceResult (CloseSession_ResponseHeader response)) of
             Inl e \<Rightarrow> if e = BadSessionClosed then (c, Returned ()) else (c, Raised e)
           | Inr u \<Rightarrow> (c, Returned ())))"

definition close_session ::
  "codec \<Rightarrow> client_state \<Rightarrow> bool \<Rightarrow> client_state \<times> unit outcome" where
  "close_session cd c deletesubscriptions =
     (let c0 = logc INFO ''close_session'' c;
          request = new_request (CloseSessionRequest deletesubscriptions)
      in case protocol c0 of
           None \<Rightarrow> (c0, Raised AttributeError)
         | Some p \<Rightarrow>
             (case send_request cd p request None 1000 SecureMessage of
                (p1, request1, Raised e) \<Rightarrow> (c0\<lparr>protocol := Some p1\<rparr>, Raised e)
              | (p1, request1, Suspended d) \<Rightarrow> (c0\<lparr>protocol := Some p1\<rparr>, Suspended d)
              | (p1, request1, Returned data) \<Rightarrow>
                  close_session_response cd (c0\<lparr>protocol := Some p1\<rparr>) data))"

subsection \<open>Read and its casts\<close>

text \<open>The integer behind a value; a value that is no integer has none.\<close>

fun int_of_value :: "variant_value \<Rightarrow> int option" where
  "int_of_value (Int_value v) = Some v"
| "int_of_value (NodeClass_value v) = Some v"
| "int_of_value (ValueRank_value v) = Some v"
| "int_of_value (Other_value n) = None"

text \<open>\<^verbatim>\<open>ua.NodeClass(x)\<close>: the member with the value \<open>x\<close>, or
  \<^verbatim>\<open>ValueError\<close> when the enumeration has no such member.\<close>

definition to_NodeClass :: "codec \<Rightarrow> variant_value \<Rightarrow> exn + variant_value" where
  "to_NodeClass cd x =
     (case int_of_value x of
        None \<Rightarrow> Inl ValueError
      | Some v \<Rightarrow> if NodeClass_member cd v then Inr (NodeClass_value v) else Inl ValueError)"

text \<open>The tuple \<^verbatim>\<open>(-3, -2, -1, 0, 1, 2, 3, 4)\<close> of \<^verbatim>\<open>read\<close>.\<close>

definition value_ranks :: "int list" where
  "value_ranks = [- 3, - 2, - 1, 0, 1, 2, 3, 4]"

text \<open>\<^verbatim>\<open>x in (-3, -2, -1, 0, 1, 2, 3, 4)\<close>.\<close>

definition in_value_ranks :: "variant_value \<Rightarrow> bool" where
  "in_value_ranks x = (case int_of_value x of None \<Rightarrow> False | Some v \<Rightarrow> v \<in> set value_ranks)"

text \<open>
  Modelled from the spec: the enumeration \<^verbatim>\<open>ua.ValueRank\<close>, which is not in the
  file; its members are the values -3 to 4 of the tuple above.
\<close>

definition to_ValueRank :: "variant_value \<Rightarrow> exn + variant_value" where
  "to_ValueRank x =
     (case int_of_value x of
        None \<Rightarrow> Inl ValueError
      | Some v \<Rightarrow> if v \<in> set value_ranks then Inr (ValueRank_value v) else Inl ValueError)"

text \<open>
  The loop of \<^verbatim>\<open>read\<close> over \<^verbatim>\<open>enumerate(parameters.NodesToRead)\<close>, from the
  index \<open>idx\<close> on. \<^verbatim>\<open>response.Results[idx]\<close> raises \<^verbatim>\<open>IndexError\<close> when the
  response has fewer results than the request has nodes.
\<close>

fun cast_enums ::
  "codec \<Rightarrow> nat \<Rightarrow> read_value_id list \<Rightarrow> data_value list \<Rightarrow> exn + data_value list" where
  "cast_enums cd idx [] results = Inr results"
| "cast_enums cd idx (rv # rvs) results =
     (if AttributeId rv = AttributeIds_NodeClass then
        (if idx < length results then
           (let dv = results ! idx
            in if is_good (StatusCode dv) then
                 (case to_NodeClass cd (Value dv) of
                    Inl e \<Rightarrow> Inl e
                  | Inr v \<Rightarrow> cast_enums cd (Suc idx) rvs (results[idx := dv\<lparr>Value := v\<rparr>]))
               else cast_enums cd (Suc idx) rvs results)
         else Inl IndexError)
      else if AttributeId rv = AttributeIds_ValueRank then
        (if idx < length results then
           (let dv = results ! idx
            in if is_good (StatusCode dv) \<and> in_value_ranks (Value dv) then
                 (case to_ValueRank (Value dv) of
                    Inl e \<Rightarrow> Inl e
                  | Inr v \<Rightarrow> cast_enums cd (Suc idx) rvs (results[idx := dv\<lparr>Value := v\<rparr>]))
               else cast_enums cd (Suc idx) rvs results)
         else Inl IndexError)
      else cast_enums cd (Suc idx) rvs results)"

text \<open>\<^verbatim>\<open>read(parameters)\<close>: the part after the await, on the data that
  \<^verbatim>\<open>send_request\<close> returned.\<close>

definition read_response ::
  "codec \<Rightarrow> client_state \<Rightarrow> read_value_id list \<Rightarrow> pyobj
     \<Rightarrow> client_state \<times> data_value list outcome" where
  "read_response cd c NodesToRead data =
     (case struct_from_binary (ReadResponse_from_binary cd) data of
        Inl e \<Rightarrow> (c, Raised e)
      | Inr response \<Rightarrow>
          (let c1 = logc DEBUG ''%s'' c
           in case check (ServiceResult (Read_ResponseHeader response)) of
                Inl e \<Rightarrow> (c1, Raised e)
              | Inr u \<Rightarrow>
                  (case cast_enums cd 0 NodesToRead (Results response) of
                     Inl e \<Rightarrow> (c1, Raised e)
                   | Inr results \<Rightarrow> (c1, Returned results))))"

definition read ::
  "codec \<Rightarrow> client_state \<Rightarrow> read_value_id list \<Rightarrow> client_state \<times> data_value list outcome" where
  "read cd c NodesToRead =
     (let c0 = logc INFO ''read'' c;
          request = new_request (ReadRequest NodesToRead)
      in case protocol c0 of
           None \<Rightarrow> (c0, Raised AttributeError)
         | Some p \<Rightarrow>
             (case send_request cd p request None 1000 SecureMessage of
                (p1, request1, Raised e) \<Rightarrow> (c0\<lparr>protocol := Some p1\<rparr>, Raised e)
              | (p1, request1, Suspended d) \<Rightarrow> (c0\<lparr>protocol := Some p1\<rparr>, Suspended d)
              | (p1, request1, Returned data) \<Rightarrow>
                  read_response cd (c0\<lparr>protocol := Some p1\<rparr>) NodesToRead data))"

subsection \<open>Publish\<close>

text \<open>\<^verbatim>\<open>publish(acks)\<close>: a publish request is sent with the publish callback and the
  timeout 0.\<close>

definition publish ::
  "codec \<Rightarrow> client_state \<Rightarrow> nat list option \<Rightarrow> client_state \<times> unit outcome" where
  "publish cd c acks =
     (let c0 = logc INFO ''publish'' c;
          acks1 = (case acks of None \<Rightarrow> [] | Some a \<Rightarrow> a);
          request = new_request (PublishRequest acks1)
      in case protocol c0 of
           None \<Rightarrow> (c0, Raised AttributeError)
         | Some p \<Rightarrow>
             (case send_request cd p request (Some Call_publish_callback) 0 SecureMessage of
                (p1, request1, Raised e) \<Rightarrow> (c0\<lparr>protocol := Some p1\<rparr>, Raised e)
              | (p1, request1, Suspended d) \<Rightarrow> (c0\<lparr>protocol := Some p1\<rparr>, Suspended d)
              | (p1, request1, Returned x) \<Rightarrow> (c0\<lparr>protocol := Some p1\<rparr>, Returned ())))"

text \<open>\<^verbatim>\<open>await future\<close>.\<close>

definition await_future :: "future \<Rightarrow> bytes outcome" where
  "await_future f =
     (case fstate f of
        Pending \<Rightarrow> Suspended None
      | Finished b \<Rightarrow> Returned b
      | Cancelled \<Rightarrow> Raised CancelledError)"

text \<open>
  \<^verbatim>\<open>_call_publish_callback(future)\<close>: the body of the coroutine, as it runs when
  it is awaited on the future of a publish request. In the two places where the source writes \<^verbatim>\<open>self.publish(...)\<close> the call
  is not awaited: it makes a coroutine object that nothing runs, so \<open>never_run\<close>, what
  running it would give, is not used. Every exception of the model is an instance of
  \<^verbatim>\<open>Exception\<close>, so the two \<^verbatim>\<open>except Exception\<close> clauses catch all of them.
\<close>

definition priv_call_publish_callback ::
  "codec \<Rightarrow> client_state \<Rightarrow> future \<Rightarrow> client_state \<times> unit outcome" where
  "priv_call_publish_callback cd c fut =
     (let c0 = logc INFO ''call_publish_callback'' c
      in case await_future fut of
           Suspended d \<Rightarrow> (c0, Suspended d)
         | Raised e \<Rightarrow> (c0, Raised e)
         | Returned data \<Rightarrow>
             (case protocol c0 of
                None \<Rightarrow> (c0, Raised AttributeError)
              | Some p \<Rightarrow>
                  (case check_answer cd p data of
                     (p1, Inl e) \<Rightarrow>
                       (let c1 = c0\<lparr>protocol := Some p1\<rparr>
                        in if e = BadTimeout then
                             (let never_run = publish cd c1 None in (c1, Returned ()))
                           else if e = BadNoSubscription then
                             (logc INFO ''BadNoSubscription received, ignoring because it's probably valid.'' c1,
                              Returned ())
                           else (c1, Raised e))
                   | (p1, Inr ok) \<Rightarrow>
                       (let c1 = c0\<lparr>protocol := Some p1\<rparr>
                        in case PublishResponse_from_binary cd data of
                             Inl e \<Rightarrow>
                               (let c2 = logc ERROR ''Error parsing notificatipn from server'' c1;
                                    never_run = publish cd c2 (Some [])
                                in (c2, Returned ()))
                           | Inr response \<Rightarrow>
                               (let c2 = logc DEBUG ''%s'' c1
                                in case map_of (publishcallbacks c2)
                                          (SubscriptionId (Publish_Parameters response)) of
                                     None \<Rightarrow>
                                       (logc WARNING ''Received data for unknown subscription: %s '' c2,
                                        Returned ())
                                   | Some callback \<Rightarrow>
                                       (case callback (Publish_Parameters response) of
                                          None \<Rightarrow> (c2, Returned ())
                                        | Some e \<Rightarrow>
                                            (logc ERROR ''Exception while calling user callback: %s'' c2,
                                             Returned ())))))))"

subsection \<open>The invariant of the pending map\<close>

text \<open>
  The keys of the map are pairwise different, none is negative, and none is beyond the
  request id counter.
\<close>

definition callbackmap_ok :: "protocol_state \<Rightarrow> bool" where
  "callbackmap_ok s \<longleftrightarrow>
     distinct (map fst (callbackmap s)) \<and> 0 \<le> request_id s \<and>
     (\<forall>k \<in> set (map fst (callbackmap s)). 0 \<le> k \<and> k \<le> request_id s)"

subsection \<open>A small codec for concrete runs\<close>

text \<open>
  A codec to evaluate the model on concrete inputs. A request is encoded as its handle
  and its hint, and the encoding fails when the hint is no unsigned 32 bit number. A
  response is the list of its type id, its service result and two more numbers.
\<close>

definition toy_status :: "nat \<Rightarrow> status_code" where
  "toy_status n =
     (if n = 0 then Good
      else if n = 1 then Status_BadTimeout
      else if n = 2 then Status_BadNoSubscription
      else if n = 3 then Status_BadSessionClosed
      else Status_OtherBad n)"

definition toy_struct_to_binary :: "request \<Rightarrow> exn + bytes" where
  "toy_struct_to_binary r =
     (let h = RequestHeader r
      in if 0 \<le> TimeoutHint h \<and> TimeoutHint h < 4294967296
         then Inr [nat (RequestHandle h), nat (TimeoutHint h)]
         else Inl (OtherException 0))"

definition toy_message_to_binary ::
  "connection \<Rightarrow> bytes \<Rightarrow> message_type \<Rightarrow> int \<Rightarrow> connection \<times> bytes" where
  "toy_message_to_binary conn b mt rid =
     (case conn of Connection n \<Rightarrow> (Connection (Suc n), nat rid # b))"

definition toy_nodeid_from_binary :: "bytes \<Rightarrow> exn + (node_id \<times> bytes)" where
  "toy_nodeid_from_binary b =
     (case b of [] \<Rightarrow> Inl (OtherException 1) | t # rest \<Rightarrow> Inr (int t, rest))"

definition toy_header_from_binary :: "bytes \<Rightarrow> exn + response_header" where
  "toy_header_from_binary b =
     (case b of
        [] \<Rightarrow> Inl (OtherException 1)
      | st # rest \<Rightarrow> Inr \<lparr>ServiceResult = toy_status st\<rparr>)"

definition toy_create_session_from_binary :: "bytes \<Rightarrow> exn + create_session_response" where
  "toy_create_session_from_binary b =
     (case b of
        t # st # sid # tok # rest \<Rightarrow>
          Inr \<lparr>CreateSession_ResponseHeader = \<lparr>ServiceResult = toy_status st\<rparr>,
               CreateSession_Parameters =
                 \<lparr>SessionId = int sid, Result_AuthenticationToken = int tok\<rparr>\<rparr>
      | _ \<Rightarrow> Inl (OtherException 1))"

definition toy_close_session_from_binary :: "bytes \<Rightarrow> exn + close_session_response" where
  "toy_close_session_from_binary b =
     (case b of
        t # st # rest \<Rightarrow> Inr \<lparr>CloseSession_ResponseHeader = \<lparr>ServiceResult = toy_status st\<rparr>\<rparr>
      | _ \<Rightarrow> Inl (OtherException 1))"

definition toy_read_from_binary :: "bytes \<Rightarrow> exn + read_response" where
  "toy_read_from_binary b =
     (case b of
        t # st # vs \<Rightarrow>
          Inr \<lparr>Read_ResponseHeader = \<lparr>ServiceResult = toy_status st\<rparr>,
               Results = map (\<lambda>v. \<lparr>StatusCode = Good, Value = Int_value (int v)\<rparr>) vs\<rparr>
      | _ \<Rightarrow> Inl (OtherException 1))"

definition toy_publish_from_binary :: "bytes \<Rightarrow> exn + publish_response" where
  "toy_publish_from_binary b =
     (case b of
        t # st # sid # n # rest \<Rightarrow>
          Inr \<lparr>Publish_ResponseHeader = \<lparr>ServiceResult = toy_status st\<rparr>,
               Publish_Parameters = \<lparr>SubscriptionId = int sid, NotificationMessage = n\<rparr>\<rparr>
      | _ \<Rightarrow> Inl (OtherException 1))"

definition toy_codec :: codec where
  "toy_codec =
     \<lparr>struct_to_binary = toy_struct_to_binary,
      uatcp_to_binary = (\<lambda>mt h. []),
      message_to_binary = toy_message_to_binary,
      nodeid_from_binary = toy_nodeid_from_binary,
      ResponseHeader_from_binary = toy_header_from_binary,
      CreateSessionResponse_from_binary = toy_create_session_from_binary,
      CloseSessionResponse_from_binary = toy_close_session_from_binary,
      ReadResponse_from_binary = toy_read_from_binary,
      PublishResponse_from_binary = toy_publish_from_binary,
      NodeClass_member = (\<lambda>v. v \<in> set [0, 1, 2, 4, 8, 16, 32, 64, 128])\<rparr>"

text \<open>A protocol object with the timeout 1 whose connection is made, and a client that
  holds it.\<close>

definition connected_protocol :: protocol_state where
  "connected_protocol = connection_made (init_protocol 1 (Connection 0))"

definition connected_client :: client_state where
  "connected_client = (init_client 1)\<lparr>protocol := Some connected_protocol\<rparr>"


section \<open>Properties\<close>

subsection \<open>Dispatch of a message with no pending request\<close>

text \<open>
  C2, as the code has it. \<^verbatim>\<open>_call_callback\<close> with a request id that has no entry in
  the pending map raises \<^verbatim>\<open>UaError\<close>; it does not return. The pending map, the
  connection and every other field of the protocol object are left as they were, and
  nothing is logged.
\<close>

theorem call_callback_unknown_id_raises:
  assumes "map_of (callbackmap s) rid = None"
  shows "priv_call_callback s rid body = (s, Inl UaError)"
  using assms by (simp add: priv_call_callback_def)

theorem call_callback_unknown_id_raises_witness:
  "map_of (callbackmap connected_protocol) 7 = None
   \<and> priv_call_callback connected_protocol 7 [1, 2] = (connected_protocol, Inl UaError)"
proof -
  have h: "map_of (callbackmap connected_protocol) 7 = None"
    by (simp add: connected_protocol_def connection_made_def init_protocol_def)
  from h call_callback_unknown_id_raises [OF h, of "[1, 2]"] show ?thesis by simp
qed

text \<open>
  The claim C2 as the spec states it (the dispatch returns without raising) fails: on a
  connected protocol object with an empty pending map, the dispatch of a body for the
  request id 7 raises.
\<close>

theorem call_callback_unknown_id_counterexample:
  "snd (priv_call_callback (connection_made (init_protocol 1 (Connection 0))) 7 [1, 2])
     = Inl UaError"
  by (simp add: priv_call_callback_def connection_made_def init_protocol_def)

subsection \<open>A request that cannot be encoded\<close>

lemma priv_send_request_encode_fails:
  assumes "struct_to_binary cd (request\<lparr>RequestHeader := snd (priv_create_request_header s tmo)\<rparr>) = Inl e"
  shows "priv_send_request cd s request callback tmo mt =
           (logp DEBUG ''Sending: %s'' s,
            request\<lparr>RequestHeader := snd (priv_create_request_header s tmo)\<rparr>, Inl e)"
  using assms by (simp add: priv_send_request_def priv_create_request_header_def logp_def Let_def)

text \<open>
  C10. When the encoding of the request (with its new header) raises \<open>e\<close>,
  \<^verbatim>\<open>_send_request\<close> raises \<open>e\<close>; the request id counter, the pending map, the
  transport and the connection are what they were, and so is the handle counter after
  its rollback: the protocol object differs from the one before the call by the debug
  line of the log only.
\<close>

theorem send_request_encode_failure_frame:
  assumes "struct_to_binary cd (request\<lparr>RequestHeader := snd (priv_create_request_header s tmo)\<rparr>) = Inl e"
    and "priv_send_request cd s request callback tmo mt = (s1, request1, r)"
  shows "r = Inl e \<and> request_id s1 = request_id s \<and> callbackmap s1 = callbackmap s
         \<and> transport s1 = transport s \<and> connection s1 = connection s
         \<and> request_handle s1 = request_handle s \<and> s1 = logp DEBUG ''Sending: %s'' s"
  using assms by (simp add: priv_send_request_encode_fails) (auto simp: logp_def)

theorem send_request_encode_failure_frame_witness:
  "priv_send_request toy_codec connected_protocol (new_request (OtherRequest 1)) None (- 1) SecureMessage
     = (logp DEBUG ''Sending: %s'' connected_protocol,
        \<lparr>RequestHeader = \<lparr>AuthenticationToken = 0, RequestHandle = 1, TimeoutHint = - 1\<rparr>,
         Body = OtherRequest 1\<rparr>,
        Inl (OtherException 0))
   \<and> transport (logp DEBUG ''Sending: %s'' connected_protocol) = Some []"
proof -
  have h: "struct_to_binary toy_codec
     ((new_request (OtherRequest 1))\<lparr>RequestHeader := snd (priv_create_request_header connected_protocol (- 1))\<rparr>)
     = Inl (OtherException 0)"
    by (simp add: toy_codec_def toy_struct_to_binary_def priv_create_request_header_def Let_def)
  obtain s1 request1 r where run:
    "priv_send_request toy_codec connected_protocol (new_request (OtherRequest 1)) None (- 1) SecureMessage
       = (s1, request1, r)"
    by (cases "priv_send_request toy_codec connected_protocol (new_request (OtherRequest 1)) None (- 1) SecureMessage")
      auto
  from send_request_encode_failure_frame [OF h run]
  have "r = Inl (OtherException 0)" and "s1 = logp DEBUG ''Sending: %s'' connected_protocol"
    by simp_all
  moreover have "request1 =
      \<lparr>RequestHeader = \<lparr>AuthenticationToken = 0, RequestHandle = 1, TimeoutHint = - 1\<rparr>,
       Body = OtherRequest 1\<rparr>"
    using run h
    by (simp add: priv_send_request_encode_fails)
      (auto simp: priv_create_request_header_def new_request_def connected_protocol_def
        connection_made_def init_protocol_def Let_def)
  ultimately show ?thesis
    using run by (simp add: logp_def connected_protocol_def connection_made_def init_protocol_def)
qed

subsection \<open>Request handles\<close>








subsection \<open>Request ids and the pending map\<close>

lemma priv_send_request_shape:
  assumes "priv_send_request cd s request callback tmo mt = (s1, request1, r)"
  shows "(request_id s1 = request_id s \<and> callbackmap s1 = callbackmap s) \<or>
         (request_id s1 = request_id s + 1 \<and>
          (\<exists>fut. callbackmap s1 = AList.update (request_id s + 1) fut (callbackmap s)))"
  using assms
  by (auto simp: priv_send_request_def priv_create_request_header_def logp_def
      transport_write_def Let_def split: sum.splits prod.splits option.splits)

lemma send_request_state:
  "fst (send_request cd s request callback tmo mt) = fst (priv_send_request cd s request callback tmo mt)"
  by (simp add: send_request_def wait_for_def split: prod.splits sum.splits option.splits)

text \<open>What one event can do to the counter and the map.\<close>

lemma step_shape:
  "(request_id (step cd s ev) = request_id s \<and>
      (callbackmap (step cd s ev) = callbackmap s \<or> callbackmap (step cd s ev) = [] \<or>
       (\<exists>k. callbackmap (step cd s ev) = AList.delete k (callbackmap s)) \<or>
       (\<exists>fut. callbackmap (step cd s ev) = AList.update 0 fut (callbackmap s))))
   \<or> (request_id (step cd s ev) = request_id s + 1 \<and>
      (callbackmap (step cd s ev) = [] \<or>
       (\<exists>fut. callbackmap (step cd s ev) = AList.update (request_id s + 1) fut (callbackmap s))))"
proof (cases ev)
  case Ev_connection_made
  then show ?thesis by (simp add: connection_made_def)
next
  case Ev_connection_lost
  then show ?thesis by (simp add: connection_lost_def logp_def)
next
  case (Ev_send_request request callback tmo mt)
  obtain s1 request1 r where run: "priv_send_request cd s request callback tmo mt = (s1, request1, r)"
    by (cases "priv_send_request cd s request callback tmo mt") auto
  from priv_send_request_shape [OF run] Ev_send_request run show ?thesis
    by (auto simp: send_request_state)
next
  case (Ev_call_callback rid body)
  then show ?thesis
    by (auto simp: priv_call_callback_def Let_def split: option.splits)
next
  case (Ev_send_hello url mms mcc)
  then show ?thesis
    by (auto simp: send_hello_def transport_write_def Let_def split: option.splits)
next
  case (Ev_open_secure_channel params)
  obtain s1 request1 r where run:
    "priv_send_request cd (logp INFO ''open_secure_channel'' s)
       (new_request (OpenSecureChannelRequest params)) None 1000 SecureOpen = (s1, request1, r)"
    by (cases "priv_send_request cd (logp INFO ''open_secure_channel'' s)
       (new_request (OpenSecureChannelRequest params)) None 1000 SecureOpen") auto
  from priv_send_request_shape [OF run] Ev_open_secure_channel run show ?thesis
    by (auto simp: open_secure_channel_def Let_def logp_def split: sum.splits)
next
  case Ev_close_secure_channel
  obtain s1 request1 r where run:
    "priv_send_request cd (logp INFO ''close_secure_channel'' s)
       (new_request CloseSecureChannelRequest) None 1000 SecureClose = (s1, request1, r)"
    by (cases "priv_send_request cd (logp INFO ''close_secure_channel'' s)
       (new_request CloseSecureChannelRequest) None 1000 SecureClose") auto
  from priv_send_request_shape [OF run] Ev_close_secure_channel run show ?thesis
    by (auto simp: close_secure_channel_def Let_def logp_def split: sum.splits)
qed

lemma step_request_id:
  "request_id (step cd s ev) = request_id s \<or> request_id (step cd s ev) = request_id s + 1"
  using step_shape [of cd s ev] by blast

lemma callbackmap_ok_step:
  assumes "callbackmap_ok s"
  shows "callbackmap_ok (step cd s ev)"
proof -
  from assms have d: "distinct (map fst (callbackmap s))" and z: "0 \<le> request_id s"
    and b: "\<And>k. k \<in> fst ` set (callbackmap s) \<Longrightarrow> 0 \<le> k \<and> k \<le> request_id s"
    by (auto simp: callbackmap_ok_def)
  have del: "\<And>k. fst ` set (AList.delete k (callbackmap s)) \<subseteq> fst ` set (callbackmap s)"
    by (rule dom_delete_subset)
  from step_shape [of cd s ev] show ?thesis
    using d z b del
    by (fastforce simp: callbackmap_ok_def distinct_update distinct_delete dom_update)
qed

lemma callbackmap_ok_run:
  "callbackmap_ok s \<Longrightarrow> callbackmap_ok (run cd s evs)"
  by (induction evs arbitrary: s) (simp_all add: callbackmap_ok_step)

lemma callbackmap_ok_init: "callbackmap_ok (init_protocol tmo conn)"
  by (simp add: callbackmap_ok_def init_protocol_def)

lemma request_ids_consecutive:
  "request_ids cd s evs = map (\<lambda>i. request_id s + 1 + int i) [0..<length (request_ids cd s evs)]
   \<and> request_id (run cd s evs) = request_id s + int (length (request_ids cd s evs))"
proof (induction evs arbitrary: s)
  case Nil
  show ?case by simp
next
  case (Cons ev evs)
  let ?s1 = "step cd s ev"
  note ih = Cons.IH [of ?s1]
  from step_request_id [of cd s ev] show ?case
  proof
    assume same: "request_id ?s1 = request_id s"
    with ih show ?thesis by (simp add: Let_def)
  next
    assume next_id: "request_id ?s1 = request_id s + 1"
    have "map (\<lambda>i. request_id ?s1 + 1 + int i) [0..<length (request_ids cd ?s1 evs)] =
          map (\<lambda>i. request_id s + 1 + int (Suc i)) [0..<length (request_ids cd ?s1 evs)]"
      by (simp add: next_id algebra_simps)
    with ih have "request_ids cd ?s1 evs =
          map (\<lambda>i. request_id s + 1 + int (Suc i)) [0..<length (request_ids cd ?s1 evs)]"
      by simp
    then have "(request_id s + 1) # request_ids cd ?s1 evs =
          map (\<lambda>i. request_id s + 1 + int i) [0..<Suc (length (request_ids cd ?s1 evs))]"
      unfolding map_upt_Suc by simp
    moreover have "request_ids cd s (ev # evs) = (request_id s + 1) # request_ids cd ?s1 evs"
      using next_id by (simp add: Let_def)
    ultimately show ?thesis using ih next_id by simp
  qed
qed

text \<open>
  C6. Take a protocol object as \<^verbatim>\<open>__init__\<close> leaves it and let any series of events
  happen to it. The request ids given out are 1, 2, 3, ... in this order (the id number
  \<open>i\<close>, from 0, is \<open>i + 1\<close>), so they increase strictly; they are Python integers,
  which do not wrap, and the counter is the number of ids given out. After the events the
  keys of the pending map are pairwise different, and each lies between 0 and the counter.
\<close>

theorem request_ids_increase_and_bound_pending:
  "request_ids cd (init_protocol tmo conn) evs =
     map (\<lambda>i. 1 + int i) [0..<length (request_ids cd (init_protocol tmo conn) evs)]
   \<and> sorted_wrt (<) (request_ids cd (init_protocol tmo conn) evs)
   \<and> request_id (run cd (init_protocol tmo conn) evs) =
       int (length (request_ids cd (init_protocol tmo conn) evs))
   \<and> distinct (map fst (callbackmap (run cd (init_protocol tmo conn) evs)))
   \<and> (\<forall>k \<in> set (map fst (callbackmap (run cd (init_protocol tmo conn) evs))).
         0 \<le> k \<and> k \<le> request_id (run cd (init_protocol tmo conn) evs))"
proof -
  let ?s = "init_protocol tmo conn"
  have ids: "request_ids cd ?s evs = map (\<lambda>i. 1 + int i) [0..<length (request_ids cd ?s evs)]"
    and cnt: "request_id (run cd ?s evs) = int (length (request_ids cd ?s evs))"
    using request_ids_consecutive [of cd ?s evs] by (simp_all add: init_protocol_def)
  have "sorted_wrt (<) (map (\<lambda>i. 1 + int i) [0..<length (request_ids cd ?s evs)])"
    by (simp add: sorted_wrt_map)
  with ids have srt: "sorted_wrt (<) (request_ids cd ?s evs)" by simp
  from callbackmap_ok_run [OF callbackmap_ok_init, of cd tmo conn evs]
  have "callbackmap_ok (run cd ?s evs)" .
  with ids cnt srt show ?thesis by (simp add: callbackmap_ok_def)
qed

lemma example_run_ids:
  "request_ids toy_codec (init_protocol 1 (Connection 0))
     [Ev_send_hello ''opc.tcp://h:4840'' 0 0, Ev_connection_made,
      Ev_send_request (new_request (OtherRequest 0)) None 1000 SecureMessage,
      Ev_send_request (new_request (OtherRequest 1)) None (- 1) SecureMessage,
      Ev_send_request (new_request (PublishRequest [])) (Some Call_publish_callback) 0 SecureMessage,
      Ev_call_callback 1 [5, 0], Ev_call_callback 9 [5, 0]] = [1, 2]"
  by code_simp

lemma example_run_counter:
  "request_id (run toy_codec (init_protocol 1 (Connection 0))
     [Ev_send_hello ''opc.tcp://h:4840'' 0 0, Ev_connection_made,
      Ev_send_request (new_request (OtherRequest 0)) None 1000 SecureMessage,
      Ev_send_request (new_request (OtherRequest 1)) None (- 1) SecureMessage,
      Ev_send_request (new_request (PublishRequest [])) (Some Call_publish_callback) 0 SecureMessage,
      Ev_call_callback 1 [5, 0], Ev_call_callback 9 [5, 0]]) = 2"
  by code_simp

lemma example_run_keys:
  "map fst (callbackmap (run toy_codec (init_protocol 1 (Connection 0))
     [Ev_send_hello ''opc.tcp://h:4840'' 0 0, Ev_connection_made,
      Ev_send_request (new_request (OtherRequest 0)) None 1000 SecureMessage,
      Ev_send_request (new_request (OtherRequest 1)) None (- 1) SecureMessage,
      Ev_send_request (new_request (PublishRequest [])) (Some Call_publish_callback) 0 SecureMessage,
      Ev_call_callback 1 [5, 0], Ev_call_callback 9 [5, 0]])) = [0, 2]"
  by code_simp

text \<open>
  A run: a hello before the connection is made, three requests of which the second
  cannot be encoded, the answer to the first request and a message for an id that was
  never given out. The ids are 1 and 2; the hello and the second request sent are pending.
\<close>

theorem request_ids_increase_and_bound_pending_witness:
  "request_ids toy_codec (init_protocol 1 (Connection 0))
     [Ev_send_hello ''opc.tcp://h:4840'' 0 0, Ev_connection_made,
      Ev_send_request (new_request (OtherRequest 0)) None 1000 SecureMessage,
      Ev_send_request (new_request (OtherRequest 1)) None (- 1) SecureMessage,
      Ev_send_request (new_request (PublishRequest [])) (Some Call_publish_callback) 0 SecureMessage,
      Ev_call_callback 1 [5, 0], Ev_call_callback 9 [5, 0]] = [1, 2]
   \<and> map fst (callbackmap (run toy_codec (init_protocol 1 (Connection 0))
     [Ev_send_hello ''opc.tcp://h:4840'' 0 0, Ev_connection_made,
      Ev_send_request (new_request (OtherRequest 0)) None 1000 SecureMessage,
      Ev_send_request (new_request (OtherRequest 1)) None (- 1) SecureMessage,
      Ev_send_request (new_request (PublishRequest [])) (Some Call_publish_callback) 0 SecureMessage,
      Ev_call_callback 1 [5, 0], Ev_call_callback 9 [5, 0]])) = [0, 2]
   \<and> request_id (run toy_codec (init_protocol 1 (Connection 0))
     [Ev_send_hello ''opc.tcp://h:4840'' 0 0, Ev_connection_made,
      Ev_send_request (new_request (OtherRequest 0)) None 1000 SecureMessage,
      Ev_send_request (new_request (OtherRequest 1)) None (- 1) SecureMessage,
      Ev_send_request (new_request (PublishRequest [])) (Some Call_publish_callback) 0 SecureMessage,
      Ev_call_callback 1 [5, 0], Ev_call_callback 9 [5, 0]]) = 2"
proof -
  note t = request_ids_increase_and_bound_pending
    [where cd = toy_codec and tmo = 1 and conn = "Connection 0"
      and evs = "[Ev_send_hello ''opc.tcp://h:4840'' 0 0, Ev_connection_made,
      Ev_send_request (new_request (OtherRequest 0)) None 1000 SecureMessage,
      Ev_send_request (new_request (OtherRequest 1)) None (- 1) SecureMessage,
      Ev_send_request (new_request (PublishRequest [])) (Some Call_publish_callback) 0 SecureMessage,
      Ev_call_callback 1 [5, 0], Ev_call_callback 9 [5, 0]]",
      unfolded example_run_ids example_run_counter]
  from t example_run_keys show ?thesis
    unfolding example_run_ids example_run_counter by simp
qed

subsection \<open>The timeout argument of send-request\<close>

text \<open>Without a callback, \<^verbatim>\<open>send_request\<close> never gets beyond
  \<^verbatim>\<open>future.result()\<close>: the future it asks is the one just made, which is pending.\<close>

lemma send_request_no_callback:
  "send_request cd s request None tmo mt =
     (case priv_send_request cd s request None tmo mt of
        (s1, request1, Inl e) \<Rightarrow> (s1, request1, Raised e)
      | (s1, request1, Inr fut) \<Rightarrow> (s1, request1, Raised InvalidStateError))"
  by (auto simp: send_request_def priv_send_request_def Let_def future_result_def new_future_def
      transport_write_def split: prod.splits sum.splits option.splits)

lemma send_request_no_callback_raises:
  "\<exists>e. snd (snd (send_request cd s request None tmo mt)) = Raised e"
  by (auto simp: send_request_no_callback split: prod.splits sum.splits)


text \<open>The methods that do wait, wait with the timeout of the protocol object.\<close>

lemma send_hello_waits_with_protocol_timeout:
  "transport s = Some w \<Longrightarrow>
   snd (send_hello cd s url max_messagesize max_chunkcount) = Suspended (Some (ptimeout s))"
  by (simp add: send_hello_def transport_write_def wait_for_def new_future_def Let_def)







subsection \<open>The authentication token\<close>

text \<open>A request header carries the token that the protocol object holds.\<close>

lemma request_header_carries_token:
  "AuthenticationToken (snd (priv_create_request_header s tmo)) = authentication_token s"
  by (simp add: priv_create_request_header_def Let_def)

text \<open>
  C5 fails on the code. \<^verbatim>\<open>create_session\<close> does not await
  \<^verbatim>\<open>send_request\<close>; it hands the coroutine object to the decoder, which raises. So
  for every codec, client and parameters \<^verbatim>\<open>create_session\<close> raises, with nothing
  done but its log line: the token of the protocol object is the one it was, and nothing
  is written to the transport.
\<close>

theorem create_session_never_stores_token:
  "create_session cd c parameters = (logc INFO ''create_session'' c, Raised AttributeError)
   \<and> map_option authentication_token (protocol (fst (create_session cd c parameters)))
       = map_option authentication_token (protocol c)
   \<and> map_option transport (protocol (fst (create_session cd c parameters)))
       = map_option transport (protocol c)"
  by (simp add: create_session_def struct_from_binary_def logc_def Let_def split: option.splits)

subsection \<open>Closing the session\<close>

text \<open>
  The part of \<^verbatim>\<open>close_session\<close> after the await does what the claim C9 says: a
  response with the service result \<^verbatim>\<open>BadSessionClosed\<close> gives a normal return, like
  a good one, and every other result raises its error.
\<close>

lemma close_session_response_tolerates_BadSessionClosed:
  assumes "CloseSessionResponse_from_binary cd b = Inr response"
  shows "close_session_response cd c (Buffer b) =
     (c, if ServiceResult (CloseSession_ResponseHeader response) \<in> {Good, Status_BadSessionClosed}
         then Returned ()
         else Raised (status_error (ServiceResult (CloseSession_ResponseHeader response))))"
  using assms
  by (cases "ServiceResult (CloseSession_ResponseHeader response)")
    (simp_all add: close_session_response_def struct_from_binary_def check_def)

lemma example_close_session_response:
  "CloseSessionResponse_from_binary toy_codec [5, 3] =
     Inr \<lparr>CloseSession_ResponseHeader = \<lparr>ServiceResult = Status_BadSessionClosed\<rparr>\<rparr>"
  by code_simp

lemma close_session_response_tolerates_BadSessionClosed_witness:
  "close_session_response toy_codec connected_client (Buffer [5, 3]) = (connected_client, Returned ())"
  using close_session_response_tolerates_BadSessionClosed [OF example_close_session_response]
  by simp

lemma example_close_session:
  "snd (close_session toy_codec connected_client True) = Raised InvalidStateError"
  by code_simp

text \<open>
  C9 fails on the code. \<^verbatim>\<open>close_session\<close> awaits \<^verbatim>\<open>send_request\<close>, which
  raises before any response can arrive; so \<^verbatim>\<open>close_session\<close> never returns
  normally, whatever the server answers. On the connected client it raises
  \<^verbatim>\<open>InvalidStateError\<close>.
\<close>

theorem close_session_never_returns:
  "snd (close_session cd c deletesubscriptions) \<noteq> Returned ()
   \<and> snd (close_session toy_codec connected_client True) = Raised InvalidStateError"
proof -
  have "snd (close_session cd c deletesubscriptions) \<noteq> Returned ()"
  proof (cases "protocol c")
    case None
    then show ?thesis by (simp add: close_session_def logc_def Let_def)
  next
    case (Some p)
    from send_request_no_callback_raises
      [of cd p "new_request (CloseSessionRequest deletesubscriptions)" 1000 SecureMessage]
    obtain e where "snd (snd (send_request cd p (new_request (CloseSessionRequest deletesubscriptions))
        None 1000 SecureMessage)) = Raised e" ..
    with Some show ?thesis
      by (auto simp: close_session_def logc_def Let_def split: prod.splits outcome.splits)
  qed
  then show ?thesis by (simp add: example_close_session)
qed

subsection \<open>The publish callback\<close>


text \<open>Whatever the answer, the publish callback writes nothing to the transport and
  takes no request id: none of its calls of \<^verbatim>\<open>publish\<close> is awaited.\<close>

lemma publish_callback_never_writes:
  "map_option transport (protocol (fst (priv_call_publish_callback cd c fut)))
     = map_option transport (protocol c)
   \<and> map_option request_id (protocol (fst (priv_call_publish_callback cd c fut)))
     = map_option request_id (protocol c)"
proof (cases "protocol c")
  case None
  then show ?thesis
    by (auto simp: priv_call_publish_callback_def logc_def Let_def split: outcome.splits)
next
  case (Some p)
  have st: "\<And>data p1 r. check_answer cd p data = (p1, r) \<Longrightarrow>
              transport p1 = transport p \<and> request_id p1 = request_id p"
    by (auto simp: check_answer_def logp_def Let_def split: sum.splits if_splits prod.splits)
  from Some show ?thesis
    by (auto simp: priv_call_publish_callback_def logc_def Let_def
        split: outcome.splits prod.splits sum.splits option.splits dest: st)
qed

text \<open>
  C3 fails on the code. The publish request of the connected client is answered by a
  service fault with the status \<^verbatim>\<open>BadTimeout\<close>: \<^verbatim>\<open>check_answer\<close> raises
  \<^verbatim>\<open>BadTimeout\<close>, the callback returns, and the transport has no message, where a
  \<^verbatim>\<open>publish([])\<close> that runs writes one.
\<close>

theorem publish_callback_BadTimeout_sends_nothing:
  "snd (check_answer toy_codec connected_protocol [397, 1]) = Inl BadTimeout
   \<and> snd (priv_call_publish_callback toy_codec connected_client
       \<lparr>fstate = Finished [397, 1], done_callbacks = [Call_publish_callback]\<rparr>) = Returned ()
   \<and> map_option transport (protocol (fst (priv_call_publish_callback toy_codec connected_client
       \<lparr>fstate = Finished [397, 1], done_callbacks = [Call_publish_callback]\<rparr>))) = Some (Some [])
   \<and> map_option transport (protocol (fst (publish toy_codec connected_client (Some []))))
       = Some (Some [[1, 1, 0]])"
  by code_simp





subsection \<open>The casts of read\<close>

lemma in_value_ranks_iff:
  "in_value_ranks x \<longleftrightarrow> (\<exists>v. int_of_value x = Some v \<and> v \<in> {- 3, - 2, - 1, 0, 1, 2, 3, 4})"
  by (auto simp: in_value_ranks_def value_ranks_def split: option.splits)

lemma cast_enums_step:
  assumes "cast_enums cd k (rv # rvs) results = Inr rs"
  shows "\<exists>dv1. cast_enums cd (Suc k) rvs (if k < length results then results[k := dv1] else results) = Inr rs \<and>
     (k < length results \<longrightarrow>
     (if AttributeId rv = AttributeIds_NodeClass \<and> is_good (StatusCode (results ! k)) then
        (\<exists>v. int_of_value (Value (results ! k)) = Some v \<and> NodeClass_member cd v
           \<and> dv1 = (results ! k)\<lparr>Value := NodeClass_value v\<rparr>)
      else if AttributeId rv = AttributeIds_ValueRank \<and> is_good (StatusCode (results ! k))
              \<and> in_value_ranks (Value (results ! k)) then
        (\<exists>v. int_of_value (Value (results ! k)) = Some v \<and> v \<in> set value_ranks
           \<and> dv1 = (results ! k)\<lparr>Value := ValueRank_value v\<rparr>)
      else dv1 = results ! k))"
proof (cases "k < length results")
  case False
  with assms show ?thesis
    by (auto split: if_splits)
next
  case True
  with assms show ?thesis
    by (auto simp: Let_def to_NodeClass_def to_ValueRank_def in_value_ranks_def
        split: if_splits sum.splits option.splits)
qed

lemma cast_enums_nth:
  fixes cd :: codec
  defines "Q \<equiv> \<lambda>rv dv dv1.
     (if AttributeId rv = AttributeIds_NodeClass \<and> is_good (StatusCode dv) then
        (\<exists>v. int_of_value (Value dv) = Some v \<and> NodeClass_member cd v
           \<and> dv1 = dv\<lparr>Value := NodeClass_value v\<rparr>)
      else if AttributeId rv = AttributeIds_ValueRank \<and> is_good (StatusCode dv)
              \<and> in_value_ranks (Value dv) then
        (\<exists>v. int_of_value (Value dv) = Some v \<and> v \<in> set value_ranks
           \<and> dv1 = dv\<lparr>Value := ValueRank_value v\<rparr>)
      else dv1 = dv)"
  shows "cast_enums cd k nodes results = Inr rs \<Longrightarrow>
     length rs = length results \<and>
     (\<forall>i<k. i < length results \<longrightarrow> rs ! i = results ! i) \<and>
     (\<forall>j<length nodes. k + j < length results \<longrightarrow> Q (nodes ! j) (results ! (k + j)) (rs ! (k + j)))"
proof (induction nodes arbitrary: k results)
  case Nil
  then show ?case by simp
next
  case (Cons rv rvs)
  from cast_enums_step [OF Cons.prems] obtain dv1 where
    rec: "cast_enums cd (Suc k) rvs (if k < length results then results[k := dv1] else results) = Inr rs"
    and q: "k < length results \<longrightarrow> Q rv (results ! k) dv1"
    unfolding Q_def by blast
  let ?r1 = "if k < length results then results[k := dv1] else results"
  from Cons.IH [OF rec] have len: "length rs = length results"
    and before: "\<And>i. i < Suc k \<Longrightarrow> i < length results \<Longrightarrow> rs ! i = ?r1 ! i"
    and after: "\<And>j. j < length rvs \<Longrightarrow> Suc k + j < length results \<Longrightarrow>
                  Q (rvs ! j) (?r1 ! (Suc k + j)) (rs ! (Suc k + j))"
    by (simp_all split: if_splits)
  have a: "\<forall>i<k. i < length results \<longrightarrow> rs ! i = results ! i"
  proof (intro allI impI)
    fix i assume "i < k" "i < length results"
    with before [of i] show "rs ! i = results ! i" by (simp split: if_splits)
  qed
  have b: "\<forall>j<length (rv # rvs). k + j < length results \<longrightarrow>
             Q ((rv # rvs) ! j) (results ! (k + j)) (rs ! (k + j))"
  proof (intro allI impI)
    fix j assume j: "j < length (rv # rvs)" and kj: "k + j < length results"
    show "Q ((rv # rvs) ! j) (results ! (k + j)) (rs ! (k + j))"
    proof (cases j)
      case 0
      with kj before [of k] q show ?thesis by simp
    next
      case (Suc j')
      with j kj after [of j'] show ?thesis by (simp split: if_splits)
    qed
  qed
  from len a b show ?case by blast
qed

text \<open>The loop runs to its end when the response has a result for every node and every
  good result read for \<^verbatim>\<open>NodeClass\<close> holds a member of the enumeration.\<close>

lemma cast_enums_completes:
  "k + length nodes \<le> length results \<Longrightarrow>
   (\<forall>j<length nodes. AttributeId (nodes ! j) = AttributeIds_NodeClass
        \<and> is_good (StatusCode (results ! (k + j)))
      \<longrightarrow> (\<exists>v. int_of_value (Value (results ! (k + j))) = Some v \<and> NodeClass_member cd v)) \<Longrightarrow>
   \<exists>rs. cast_enums cd k nodes results = Inr rs"
proof (induction nodes arbitrary: k results)
  case Nil
  show ?case by simp
next
  case (Cons rv rvs)
  have k: "k < length results" using Cons.prems(1) by simp
  have rest: "\<And>dv. \<exists>rs. cast_enums cd (Suc k) rvs (results[k := dv]) = Inr rs"
  proof -
    fix dv
    show "\<exists>rs. cast_enums cd (Suc k) rvs (results[k := dv]) = Inr rs"
    proof (rule Cons.IH)
      show "Suc k + length rvs \<le> length (results[k := dv])" using Cons.prems(1) by simp
      show "\<forall>j<length rvs. AttributeId (rvs ! j) = AttributeIds_NodeClass
              \<and> is_good (StatusCode (results[k := dv] ! (Suc k + j)))
            \<longrightarrow> (\<exists>v. int_of_value (Value (results[k := dv] ! (Suc k + j))) = Some v
                    \<and> NodeClass_member cd v)"
      proof (intro allI impI)
        fix j assume j: "j < length rvs"
          and a: "AttributeId (rvs ! j) = AttributeIds_NodeClass
              \<and> is_good (StatusCode (results[k := dv] ! (Suc k + j)))"
        from Cons.prems(2) [rule_format, of "Suc j"] j a
        show "\<exists>v. int_of_value (Value (results[k := dv] ! (Suc k + j))) = Some v
                    \<and> NodeClass_member cd v"
          by simp
      qed
    qed
  qed
  from rest [of "results ! k"] have same: "\<exists>rs. cast_enums cd (Suc k) rvs results = Inr rs"
    by simp
  from Cons.prems(2) [rule_format, of 0]
  have nc: "AttributeId rv = AttributeIds_NodeClass \<Longrightarrow> is_good (StatusCode (results ! k)) \<Longrightarrow>
     \<exists>v. int_of_value (Value (results ! k)) = Some v \<and> NodeClass_member cd v"
    by simp
  show ?case
    using k rest same nc
    by (auto simp: Let_def to_NodeClass_def to_ValueRank_def in_value_ranks_def
        split: option.splits)
qed

text \<open>\<^verbatim>\<open>read\<close> returns what the loop made of the results of the response.\<close>

lemma read_response_casts:
  assumes "read_response cd c nodes data = (c1, Returned rs)"
  shows "\<exists>b response. data = Buffer b \<and> ReadResponse_from_binary cd b = Inr response
           \<and> cast_enums cd 0 nodes (Results response) = Inr rs"
  using assms
  by (auto simp: read_response_def struct_from_binary_def Let_def
      split: sum.splits pyobj.splits)

text \<open>
  C4, as the code has it. Let the loop of \<^verbatim>\<open>read\<close> run to its end on the nodes of
  the request and the results of the response, and let \<open>i\<close> be an index of both. If the
  attribute at \<open>i\<close> is \<^verbatim>\<open>NodeClass\<close> and the status code of the result at \<open>i\<close> is
  good, the result's integer is a member of \<^verbatim>\<open>ua.NodeClass\<close> and its value is now
  that member. If the attribute is \<^verbatim>\<open>ValueRank\<close>, the status code is good and the
  value is one of -3, ..., 4, the value is now that member of \<^verbatim>\<open>ua.ValueRank\<close>. In
  every other case, so whenever the status code is not good, the result is untouched.
\<close>

theorem read_casts_results_with_good_status:
  assumes run: "cast_enums cd 0 nodes results = Inr rs"
    and i: "i < length nodes" "i < length results"
  shows "length rs = length results \<and>
     (if AttributeId (nodes ! i) = AttributeIds_NodeClass \<and> is_good (StatusCode (results ! i)) then
        (\<exists>v. int_of_value (Value (results ! i)) = Some v \<and> NodeClass_member cd v
           \<and> rs ! i = (results ! i)\<lparr>Value := NodeClass_value v\<rparr>)
      else if AttributeId (nodes ! i) = AttributeIds_ValueRank \<and> is_good (StatusCode (results ! i))
              \<and> in_value_ranks (Value (results ! i)) then
        (\<exists>v. int_of_value (Value (results ! i)) = Some v \<and> v \<in> set value_ranks
           \<and> rs ! i = (results ! i)\<lparr>Value := ValueRank_value v\<rparr>)
      else rs ! i = results ! i)
     \<and> (in_value_ranks x \<longleftrightarrow>
          (\<exists>v. int_of_value x = Some v \<and> v \<in> {- 3, - 2, - 1, 0, 1, 2, 3, 4}))"
proof -
  note n = cast_enums_nth [OF run]
  from n have len: "length rs = length results" by (rule conjunct1)
  from i have i0: "0 + i < length results" by simp
  from n have all: "\<forall>j<length nodes. 0 + j < length results \<longrightarrow>
     (if AttributeId (nodes ! j) = AttributeIds_NodeClass \<and> is_good (StatusCode (results ! (0 + j))) then
        (\<exists>v. int_of_value (Value (results ! (0 + j))) = Some v \<and> NodeClass_member cd v
           \<and> rs ! (0 + j) = (results ! (0 + j))\<lparr>Value := NodeClass_value v\<rparr>)
      else if AttributeId (nodes ! j) = AttributeIds_ValueRank \<and> is_good (StatusCode (results ! (0 + j)))
              \<and> in_value_ranks (Value (results ! (0 + j))) then
        (\<exists>v. int_of_value (Value (results ! (0 + j))) = Some v \<and> v \<in> set value_ranks
           \<and> rs ! (0 + j) = (results ! (0 + j))\<lparr>Value := ValueRank_value v\<rparr>)
      else rs ! (0 + j) = results ! (0 + j))"
    by (rule conjunct2 [THEN conjunct2])
  note q = all [rule_format, OF i(1) i0, unfolded add_0]
  from len q in_value_ranks_iff [of x] show ?thesis by (intro conjI)
qed

lemma example_read_casts: "cast_enums toy_codec 0
     [\<lparr>NodeId = 10, AttributeId = AttributeIds_NodeClass\<rparr>,
      \<lparr>NodeId = 11, AttributeId = AttributeIds_ValueRank\<rparr>]
     [\<lparr>StatusCode = Good, Value = Int_value 1\<rparr>, \<lparr>StatusCode = Good, Value = Int_value (- 1)\<rparr>]
   = Inr [\<lparr>StatusCode = Good, Value = NodeClass_value 1\<rparr>,
          \<lparr>StatusCode = Good, Value = ValueRank_value (- 1)\<rparr>]"
  by code_simp


text \<open>The basic read of the spec: attributes \<^verbatim>\<open>NodeClass\<close> and \<^verbatim>\<open>ValueRank\<close>,
  integers 1 and -1, both with a good status code.\<close>

theorem read_casts_results_with_good_status_witness:
  "cast_enums toy_codec 0
     [\<lparr>NodeId = 10, AttributeId = AttributeIds_NodeClass\<rparr>,
      \<lparr>NodeId = 11, AttributeId = AttributeIds_ValueRank\<rparr>]
     [\<lparr>StatusCode = Good, Value = Int_value 1\<rparr>, \<lparr>StatusCode = Good, Value = Int_value (- 1)\<rparr>]
   = Inr [\<lparr>StatusCode = Good, Value = NodeClass_value 1\<rparr>,
          \<lparr>StatusCode = Good, Value = ValueRank_value (- 1)\<rparr>]
   \<and> (\<exists>v. int_of_value (Int_value (- 1)) = Some v \<and> v \<in> set value_ranks
          \<and> \<lparr>StatusCode = Good, Value = ValueRank_value (- 1)\<rparr>
              = \<lparr>StatusCode = Good, Value = Int_value (- 1)\<rparr>\<lparr>Value := ValueRank_value v\<rparr>)"
proof -
  have a: "(1::nat) < length [\<lparr>NodeId = 10, AttributeId = AttributeIds_NodeClass\<rparr>,
      \<lparr>NodeId = 11, AttributeId = AttributeIds_ValueRank\<rparr>]" by simp
  have b: "(1::nat) < length [\<lparr>StatusCode = Good, Value = Int_value 1\<rparr>,
      \<lparr>StatusCode = Good, Value = Int_value (- 1)\<rparr>]" by simp
  have c: "in_value_ranks (Int_value (- 1))" by code_simp
  from read_casts_results_with_good_status [OF example_read_casts a b, THEN conjunct2, THEN conjunct1] c
  have "\<exists>v. int_of_value (Int_value (- 1)) = Some v \<and> v \<in> set value_ranks
          \<and> \<lparr>StatusCode = Good, Value = ValueRank_value (- 1)\<rparr>
              = \<lparr>StatusCode = Good, Value = Int_value (- 1)\<rparr>\<lparr>Value := ValueRank_value v\<rparr>"
    by simp
  with example_read_casts show ?thesis by (intro conjI)
qed

text \<open>
  The claim C4 as the spec states it fails: with a status code that is not good, the
  results for \<^verbatim>\<open>NodeClass\<close> and \<^verbatim>\<open>ValueRank\<close> stay the integers 1 and -1.
\<close>

theorem read_casts_counterexample:
  "cast_enums toy_codec 0
     [\<lparr>NodeId = 10, AttributeId = AttributeIds_NodeClass\<rparr>,
      \<lparr>NodeId = 11, AttributeId = AttributeIds_ValueRank\<rparr>]
     [\<lparr>StatusCode = Status_OtherBad 5, Value = Int_value 1\<rparr>,
      \<lparr>StatusCode = Status_OtherBad 5, Value = Int_value (- 1)\<rparr>]
   = Inr [\<lparr>StatusCode = Status_OtherBad 5, Value = Int_value 1\<rparr>,
          \<lparr>StatusCode = Status_OtherBad 5, Value = Int_value (- 1)\<rparr>]"
  by code_simp

end
